theory Spec2Isabelle
  imports Complex_Main "HOL-Library.Sublist"
begin

section \<open>The letter relay of server/index.js\<close>

text \<open>
  The three letter routes of \<^verbatim>\<open>server/index.js\<close> (\<^verbatim>\<open>POST /api/letters\<close>,
  \<^verbatim>\<open>GET /api/letters\<close>, \<^verbatim>\<open>GET /api/letters/:id\<close>) as functions from the request and
  the collaborators (Drive and Docs) to what the handler does: the response it sends, the
  downstream calls it makes, in order, and what it writes to the error log.
\<close>

subsection \<open>Request values and the presence check\<close>

text \<open>
  The fields of a request arrive as JavaScript values: \<^verbatim>\<open>req.body\<close> is the value
  that \<^verbatim>\<open>express.json()\<close> parsed, or \<^verbatim>\<open>undefined\<close> when nothing was parsed;
  \<^verbatim>\<open>req.query\<close> is the parsed query string, always an object. Destructuring a field
  the object does not have gives \<^verbatim>\<open>undefined\<close>. An object is the list of its
  members in the order of the JSON text. A number is kept by its value; the handlers only
  ask whether it is zero.
\<close>

datatype jsval =
    JUndefined
  | JNull
  | JBool bool
  | JNum rat
  | JStr string
  | JArr "jsval list"
  | JObj "(string \<times> jsval) list"

text \<open>\<^verbatim>\<open>!v\<close> is false exactly on the truthy values.\<close>

fun truthy :: "jsval \<Rightarrow> bool" where
  "truthy JUndefined = False"
| "truthy JNull = False"
| "truthy (JBool b) = b"
| "truthy (JNum n) = (n \<noteq> 0)"
| "truthy (JStr s) = (s \<noteq> [])"
| "truthy (JArr xs) = True"
| "truthy (JObj kvs) = True"

subsection \<open>What the collaborators send back\<close>

text \<open>
  The replies carry the fields the handlers read. A field that a reply may lack is an
  option; \<open>None\<close> is JavaScript's \<^verbatim>\<open>undefined\<close>.
\<close>

record drive_file =
  file_id :: "string option"
  name :: "string option"
  webViewLink :: "string option"
  createdTime :: "string option"

text \<open>\<^verbatim>\<open>response.data.files\<close> of \<^verbatim>\<open>drive.files.list\<close>.\<close>

type_synonym file_list = "drive_file list option"

record text_run =
  content :: "string option"

record paragraph_element =
  textRun :: "text_run option"

record paragraph_block =
  elements :: "paragraph_element list option"

text \<open>
  A block of the document body. It is a paragraph when \<open>paragraph\<close> is set; a table, a
  section break or a table of contents otherwise.
\<close>

record structural_element =
  "paragraph" :: "paragraph_block option"
  table :: "jsval option"
  sectionBreak :: "jsval option"
  tableOfContents :: "jsval option"

record doc_body =
  body_content :: "structural_element list option"

record document =
  documentId :: "string option"
  title :: "string option"
  body :: "doc_body option"

subsection \<open>Downstream calls\<close>

text \<open>One entry of \<^verbatim>\<open>requestBody.requests\<close>: \<^verbatim>\<open>insertText\<close> with its
  \<^verbatim>\<open>location.index\<close> and its \<^verbatim>\<open>text\<close>.\<close>

datatype doc_request = InsertText nat jsval

text \<open>
  The calls, with the arguments the handlers pass:
  \<^item> \<open>DriveFilesList q fields\<close>
  \<^item> \<open>DriveFilesCreate name mimeType fields\<close> (the first two are \<^verbatim>\<open>resource\<close>)
  \<^item> \<open>DocsCreate title\<close>
  \<^item> \<open>DocsBatchUpdate documentId requests\<close>
  \<^item> \<open>DriveFilesUpdate fileId addParents fields\<close>
  \<^item> \<open>DocsGet documentId\<close>
\<close>

datatype call =
    DriveFilesList string string
  | DriveFilesCreate string string string
  | DocsCreate jsval
  | DocsBatchUpdate "string option" "doc_request list"
  | DriveFilesUpdate "string option" "string option" string
  | DocsGet string

text \<open>
  What a \<^verbatim>\<open>try\<close> block can throw: the rejection of an awaited call, with the
  collaborator's detail, or the \<^verbatim>\<open>TypeError\<close> of reading a property of
  \<^verbatim>\<open>undefined\<close>.
\<close>

datatype js_error = ApiError string | TypeError

text \<open>
  The collaborators. Every client is built from the request's access token
  (\<^verbatim>\<open>auth.setCredentials\<close>), so each call is answered for that token: the first
  argument. Within one request no call is made twice with the same arguments (lemmas
  \<open>post_letters_try_distinct\<close> and \<open>get_letters_try_distinct\<close> below), so an answer
  that depends on the call alone covers a collaborator with state.
\<close>

record collab =
  files_list :: "jsval \<Rightarrow> string \<Rightarrow> string \<Rightarrow> js_error + file_list"
  files_create :: "jsval \<Rightarrow> string \<Rightarrow> string \<Rightarrow> string \<Rightarrow> js_error + drive_file"
  documents_create :: "jsval \<Rightarrow> jsval \<Rightarrow> js_error + document"
  documents_batchUpdate :: "jsval \<Rightarrow> string option \<Rightarrow> doc_request list \<Rightarrow> js_error + unit"
  files_update :: "jsval \<Rightarrow> string option \<Rightarrow> string option \<Rightarrow> string \<Rightarrow> js_error + unit"
  documents_get :: "jsval \<Rightarrow> string \<Rightarrow> js_error + document"

subsection \<open>Responses\<close>

text \<open>
  The JSON bodies the handlers send:
  \<^item> \<open>ErrorJson error\<close>
  \<^item> \<open>SavedJson message documentId documentUrl\<close>
  \<^item> \<open>LettersJson letters\<close>
  \<^item> \<open>LetterJson id title content\<close>
\<close>

datatype resp_json =
    ErrorJson string
  | SavedJson string "string option" string
  | LettersJson file_list
  | LetterJson "string option" "string option" string

record http_response =
  status :: nat
  json :: resp_json

text \<open>
  What handling one request amounts to: the response, the downstream calls in the order
  they were made, and the lines of \<^verbatim>\<open>console.error\<close> (label and error).
\<close>

record outcome =
  response :: http_response
  calls :: "call list"
  logged :: "(string \<times> js_error) list"

subsection \<open>Constants of the handlers\<close>

definition folder_mime :: string where
  "folder_mime = ''application/vnd.google-apps.folder''"

definition folder_q :: string where
  "folder_q = ''mimeType='application/vnd.google-apps.folder' and name='Letters' and trashed=false''"

text \<open>A string, or \<^verbatim>\<open>undefined\<close>, where JavaScript makes a string of it: inside
  a template literal, or appended to a string with \<^verbatim>\<open>+=\<close>.\<close>

definition interp :: "string option \<Rightarrow> string" where
  "interp v = (case v of None \<Rightarrow> ''undefined'' | Some s \<Rightarrow> s)"

definition letters_q :: "string option \<Rightarrow> string" where
  "letters_q folderId =
     CHR 0x27 # interp folderId @
     CHR 0x27 # '' in parents and mimeType='application/vnd.google-apps.document' and trashed=false''"

definition document_url :: "string option \<Rightarrow> string" where
  "document_url docId = ''https://docs.google.com/document/d/'' @ interp docId @ ''/edit''"

subsection \<open>POST /api/letters\<close>

text \<open>
  Lines 77 to 98: the block that sets \<^verbatim>\<open>folderId\<close>. It returns the calls it made
  and either what was thrown or the folder id.
\<close>

definition ensure_folder :: "collab \<Rightarrow> jsval \<Rightarrow> call list \<times> (js_error + string option)" where
  "ensure_folder W accessToken =
     (case files_list W accessToken folder_q ''files(id, name)'' of
        Inl e \<Rightarrow> ([DriveFilesList folder_q ''files(id, name)''], Inl e)
      | Inr None \<Rightarrow> ([DriveFilesList folder_q ''files(id, name)''], Inl TypeError)
      | Inr (Some files) \<Rightarrow>
          if length files > 0
          then ([DriveFilesList folder_q ''files(id, name)''], Inr (file_id (files ! 0)))
          else
            (case files_create W accessToken ''Letters'' folder_mime ''id'' of
               Inl e \<Rightarrow>
                 ([DriveFilesList folder_q ''files(id, name)'',
                   DriveFilesCreate ''Letters'' folder_mime ''id''], Inl e)
             | Inr folder \<Rightarrow>
                 ([DriveFilesList folder_q ''files(id, name)'',
                   DriveFilesCreate ''Letters'' folder_mime ''id''], Inr (file_id folder))))"

text \<open>Lines 69 to 140: the \<^verbatim>\<open>try\<close> block.\<close>

definition post_letters_try ::
  "collab \<Rightarrow> jsval \<Rightarrow> jsval \<Rightarrow> jsval \<Rightarrow> call list \<times> (js_error + http_response)" where
  "post_letters_try W content' title' accessToken =
     (case ensure_folder W accessToken of
        (tr, Inl e) \<Rightarrow> (tr, Inl e)
      | (tr, Inr folderId) \<Rightarrow>
          (case documents_create W accessToken title' of
             Inl e \<Rightarrow> (tr @ [DocsCreate title'], Inl e)
           | Inr docResponse \<Rightarrow>
               (let docId = documentId docResponse in
                case documents_batchUpdate W accessToken docId [InsertText 1 content'] of
                  Inl e \<Rightarrow>
                    (tr @ [DocsCreate title', DocsBatchUpdate docId [InsertText 1 content']],
                     Inl e)
                | Inr _ \<Rightarrow>
                    (case files_update W accessToken docId folderId ''id, parents'' of
                       Inl e \<Rightarrow>
                         (tr @ [DocsCreate title', DocsBatchUpdate docId [InsertText 1 content'],
                                DriveFilesUpdate docId folderId ''id, parents''],
                          Inl e)
                     | Inr _ \<Rightarrow>
                         (tr @ [DocsCreate title', DocsBatchUpdate docId [InsertText 1 content'],
                                DriveFilesUpdate docId folderId ''id, parents''],
                          Inr \<lparr>status = 201,
                               json = SavedJson ''Letter saved successfully'' docId
                                        (document_url docId)\<rparr>)))))"

text \<open>Lines 65 to 146: the handler once line 63 has read the three fields: the presence
  check, the \<^verbatim>\<open>try\<close> block and its \<^verbatim>\<open>catch\<close>.\<close>

definition post_letters :: "collab \<Rightarrow> jsval \<Rightarrow> jsval \<Rightarrow> jsval \<Rightarrow> outcome" where
  "post_letters W content' title' accessToken =
     (if \<not> truthy content' \<or> \<not> truthy title' \<or> \<not> truthy accessToken
      then \<lparr>response = \<lparr>status = 400, json = ErrorJson ''Missing required fields''\<rparr>,
            calls = [], logged = []\<rparr>
      else
        (case post_letters_try W content' title' accessToken of
           (tr, Inl e) \<Rightarrow>
             \<lparr>response = \<lparr>status = 500,
                          json = ErrorJson ''Failed to save letter to Google Drive''\<rparr>,
              calls = tr, logged = [(''Error saving letter:'', e)]\<rparr>
         | (tr, Inr r) \<Rightarrow> \<lparr>response = r, calls = tr, logged = []\<rparr>))"



subsection \<open>GET /api/letters\<close>

text \<open>Lines 156 to 182: the \<^verbatim>\<open>try\<close> block. \<^verbatim>\<open>res.json\<close> alone answers with
  status 200.\<close>

definition get_letters_try :: "collab \<Rightarrow> jsval \<Rightarrow> call list \<times> (js_error + http_response)" where
  "get_letters_try W accessToken =
     (case files_list W accessToken folder_q ''files(id, name)'' of
        Inl e \<Rightarrow> ([DriveFilesList folder_q ''files(id, name)''], Inl e)
      | Inr None \<Rightarrow> ([DriveFilesList folder_q ''files(id, name)''], Inl TypeError)
      | Inr (Some files) \<Rightarrow>
          if length files = 0
          then ([DriveFilesList folder_q ''files(id, name)''],
                Inr \<lparr>status = 200, json = LettersJson (Some [])\<rparr>)
          else
            (let folderId = file_id (files ! 0) in
             case files_list W accessToken (letters_q folderId)
                    ''files(id, name, webViewLink, createdTime)'' of
               Inl e \<Rightarrow>
                 ([DriveFilesList folder_q ''files(id, name)'',
                   DriveFilesList (letters_q folderId)
                     ''files(id, name, webViewLink, createdTime)''], Inl e)
             | Inr fileResponse \<Rightarrow>
                 ([DriveFilesList folder_q ''files(id, name)'',
                   DriveFilesList (letters_q folderId)
                     ''files(id, name, webViewLink, createdTime)''],
                  Inr \<lparr>status = 200, json = LettersJson fileResponse\<rparr>)))"

definition get_letters :: "collab \<Rightarrow> jsval \<Rightarrow> outcome" where
  "get_letters W accessToken =
     (if \<not> truthy accessToken
      then \<lparr>response = \<lparr>status = 400, json = ErrorJson ''Access token is required''\<rparr>,
            calls = [], logged = []\<rparr>
      else
        (case get_letters_try W accessToken of
           (tr, Inl e) \<Rightarrow>
             \<lparr>response = \<lparr>status = 500,
                          json = ErrorJson ''Failed to fetch letters from Google Drive''\<rparr>,
              calls = tr, logged = [(''Error fetching letters:'', e)]\<rparr>
         | (tr, Inr r) \<Rightarrow> \<lparr>response = r, calls = tr, logged = []\<rparr>))"

subsection \<open>GET /api/letters/:id\<close>

text \<open>Lines 217 to 221: the inner \<^verbatim>\<open>forEach\<close>, over the run elements of one
  paragraph. The accumulator is \<^verbatim>\<open>content\<close>; line 219 appends
  \<^verbatim>\<open>element.textRun.content\<close> whether the text run has it or not.\<close>

fun extract_elements :: "paragraph_element list \<Rightarrow> string \<Rightarrow> string" where
  "extract_elements [] acc = acc"
| "extract_elements (element # rest) acc =
     (case textRun element of
        Some run \<Rightarrow> extract_elements rest (acc @ interp (content run))
      | None \<Rightarrow> extract_elements rest acc)"

text \<open>Lines 215 to 223: the outer \<^verbatim>\<open>forEach\<close>, over the blocks. Calling
  \<^verbatim>\<open>forEach\<close> on a missing \<^verbatim>\<open>elements\<close> throws.\<close>

fun extract_items :: "structural_element list \<Rightarrow> string \<Rightarrow> js_error + string" where
  "extract_items [] acc = Inr acc"
| "extract_items (item # rest) acc =
     (case paragraph item of
        Some p \<Rightarrow>
          (case elements p of
             None \<Rightarrow> Inl TypeError
           | Some els \<Rightarrow> extract_items rest (extract_elements els acc))
      | None \<Rightarrow> extract_items rest acc)"

text \<open>Lines 213 to 224: \<^verbatim>\<open>content\<close> starts empty and is filled only when the
  document has a body with a content.\<close>

definition extract_content :: "document \<Rightarrow> js_error + string" where
  "extract_content doc =
     (case body doc of
        None \<Rightarrow> Inr []
      | Some b \<Rightarrow>
          (case body_content b of
             None \<Rightarrow> Inr []
           | Some items \<Rightarrow> extract_items items []))"

definition get_letter_try ::
  "collab \<Rightarrow> string \<Rightarrow> jsval \<Rightarrow> call list \<times> (js_error + http_response)" where
  "get_letter_try W id' accessToken =
     (case documents_get W accessToken id' of
        Inl e \<Rightarrow> ([DocsGet id'], Inl e)
      | Inr doc \<Rightarrow>
          (case extract_content doc of
             Inl e \<Rightarrow> ([DocsGet id'], Inl e)
           | Inr content' \<Rightarrow>
               ([DocsGet id'],
                Inr \<lparr>status = 200, json = LetterJson (documentId doc) (title doc) content'\<rparr>)))"

definition get_letter :: "collab \<Rightarrow> string \<Rightarrow> jsval \<Rightarrow> outcome" where
  "get_letter W id' accessToken =
     (if \<not> truthy accessToken
      then \<lparr>response = \<lparr>status = 400, json = ErrorJson ''Access token is required''\<rparr>,
            calls = [], logged = []\<rparr>
      else
        (case get_letter_try W id' accessToken of
           (tr, Inl e) \<Rightarrow>
             \<lparr>response = \<lparr>status = 500,
                          json = ErrorJson ''Failed to fetch letter from Google Drive''\<rparr>,
              calls = tr, logged = [(''Error fetching letter:'', e)]\<rparr>
         | (tr, Inr r) \<Rightarrow> \<lparr>response = r, calls = tr, logged = []\<rparr>))"

section \<open>Notions used to state the properties\<close>

subsection \<open>The text of a document, in the words of the specification\<close>

text \<open>
  The specification's reading of a document body: the text fragments of the run elements
  of the paragraph blocks, in document order. A run that carries no text has no fragment;
  a block that is not a paragraph has none; the text is their concatenation.
\<close>

definition run_fragments :: "paragraph_element list \<Rightarrow> string list" where
  "run_fragments els =
     concat (map (\<lambda>el. case textRun el of
                         None \<Rightarrow> []
                       | Some run \<Rightarrow> (case content run of None \<Rightarrow> [] | Some s \<Rightarrow> [s])) els)"

definition block_fragments :: "structural_element \<Rightarrow> string list" where
  "block_fragments item =
     (case paragraph item of
        None \<Rightarrow> []
      | Some p \<Rightarrow> (case elements p of None \<Rightarrow> [] | Some els \<Rightarrow> run_fragments els))"

definition fragments :: "structural_element list \<Rightarrow> string list" where
  "fragments items = concat (map block_fragments items)"

text \<open>The blocks of a body; none when the body has no \<^verbatim>\<open>content\<close>.\<close>

definition blocks :: "doc_body \<Rightarrow> structural_element list" where
  "blocks b = (case body_content b of None \<Rightarrow> [] | Some items \<Rightarrow> items)"

text \<open>Every paragraph block carries a sequence of run elements (possibly empty).\<close>

definition paragraphs_have_elements :: "structural_element list \<Rightarrow> bool" where
  "paragraphs_have_elements items =
     list_all (\<lambda>item. case paragraph item of None \<Rightarrow> True | Some p \<Rightarrow> elements p \<noteq> None) items"

text \<open>Every text run of every paragraph block carries its text.\<close>

definition runs_have_content :: "structural_element list \<Rightarrow> bool" where
  "runs_have_content items =
     list_all (\<lambda>item. case paragraph item of
                       None \<Rightarrow> True
                     | Some p \<Rightarrow>
                         (case elements p of
                            None \<Rightarrow> True
                          | Some els \<Rightarrow>
                              list_all (\<lambda>el. case textRun el of
                                                None \<Rightarrow> True
                                              | Some run \<Rightarrow> content run \<noteq> None) els)) items"

subsection \<open>A call that fails\<close>

text \<open>The error with which the collaborators reject a call, if they reject it.\<close>

definition rejected :: "collab \<Rightarrow> jsval \<Rightarrow> call \<Rightarrow> js_error option" where
  "rejected W accessToken c =
     (case c of
        DriveFilesList q flds \<Rightarrow>
          (case files_list W accessToken q flds of Inl e \<Rightarrow> Some e | Inr r \<Rightarrow> None)
      | DriveFilesCreate nm mt flds \<Rightarrow>
          (case files_create W accessToken nm mt flds of Inl e \<Rightarrow> Some e | Inr r \<Rightarrow> None)
      | DocsCreate t \<Rightarrow>
          (case documents_create W accessToken t of Inl e \<Rightarrow> Some e | Inr r \<Rightarrow> None)
      | DocsBatchUpdate d rs \<Rightarrow>
          (case documents_batchUpdate W accessToken d rs of Inl e \<Rightarrow> Some e | Inr r \<Rightarrow> None)
      | DriveFilesUpdate d p flds \<Rightarrow>
          (case files_update W accessToken d p flds of Inl e \<Rightarrow> Some e | Inr r \<Rightarrow> None)
      | DocsGet d \<Rightarrow>
          (case documents_get W accessToken d of Inl e \<Rightarrow> Some e | Inr r \<Rightarrow> None))"

subsection \<open>The steps of create-letter, in the words of the specification\<close>

text \<open>
  The folder step: the lookup, followed by one create call exactly when the lookup
  answers with an empty list. The folder it settles on: the first one found, or the one
  created.
\<close>

definition folder_steps :: "collab \<Rightarrow> jsval \<Rightarrow> call list" where
  "folder_steps W accessToken =
     DriveFilesList folder_q ''files(id, name)'' #
     (if files_list W accessToken folder_q ''files(id, name)'' = Inr (Some [])
      then [DriveFilesCreate ''Letters'' folder_mime ''id''] else [])"

definition letters_folder_id :: "collab \<Rightarrow> jsval \<Rightarrow> string option" where
  "letters_folder_id W accessToken =
     (case files_list W accessToken folder_q ''files(id, name)'' of
        Inl e \<Rightarrow> None
      | Inr None \<Rightarrow> None
      | Inr (Some []) \<Rightarrow>
          (case files_create W accessToken ''Letters'' folder_mime ''id'' of
             Inl e \<Rightarrow> None
           | Inr folder \<Rightarrow> file_id folder)
      | Inr (Some (f # fs)) \<Rightarrow> file_id f)"

text \<open>The id of the document that Docs creates for the title.\<close>

definition created_document_id :: "collab \<Rightarrow> jsval \<Rightarrow> jsval \<Rightarrow> string option" where
  "created_document_id W accessToken title' =
     (case documents_create W accessToken title' of
        Inl e \<Rightarrow> None
      | Inr doc \<Rightarrow> documentId doc)"

text \<open>
  The four steps in order: the folder step, the creation of a document with the title, one
  batch update whose only request inserts the whole content at index 1 of that document,
  and the reparenting of that document into the folder.
\<close>

definition letter_steps :: "collab \<Rightarrow> jsval \<Rightarrow> jsval \<Rightarrow> jsval \<Rightarrow> call list" where
  "letter_steps W content' title' accessToken =
     folder_steps W accessToken @
     [DocsCreate title',
      DocsBatchUpdate (created_document_id W accessToken title') [InsertText 1 content'],
      DriveFilesUpdate (created_document_id W accessToken title')
        (letters_folder_id W accessToken) ''id, parents'']"

text \<open>
  A call fails when the collaborators reject it, or when it is the folder lookup and its
  reply has no list of files.
\<close>

definition step_fails :: "collab \<Rightarrow> jsval \<Rightarrow> call \<Rightarrow> bool" where
  "step_fails W accessToken c =
     (rejected W accessToken c \<noteq> None \<or>
      (c = DriveFilesList folder_q ''files(id, name)'' \<and>
       files_list W accessToken folder_q ''files(id, name)'' = Inr None))"

text \<open>The calls of a sequence up to the first one that fails, that one included.\<close>

fun up_to_first :: "('a \<Rightarrow> bool) \<Rightarrow> 'a list \<Rightarrow> 'a list" where
  "up_to_first P [] = []"
| "up_to_first P (x # xs) = (if P x then [x] else x # up_to_first P xs)"

subsection \<open>Sample documents and collaborators\<close>

definition letters_folder :: drive_file where
  "letters_folder =
     \<lparr>file_id = Some ''folder-1'', name = Some ''Letters'',
      webViewLink = None, createdTime = None\<rparr>"

definition new_folder :: drive_file where
  "new_folder =
     \<lparr>file_id = Some ''folder-2'', name = None, webViewLink = None, createdTime = None\<rparr>"

definition new_document :: document where
  "new_document = \<lparr>documentId = Some ''doc-1'', title = Some ''June letter'', body = None\<rparr>"

definition text_element :: "string \<Rightarrow> paragraph_element" where
  "text_element s = \<lparr>textRun = Some \<lparr>content = Some s\<rparr>\<rparr>"

definition paragraph_of :: "paragraph_element list \<Rightarrow> structural_element" where
  "paragraph_of els =
     \<lparr>paragraph = Some \<lparr>elements = Some els\<rparr>,
      table = None, sectionBreak = None, tableOfContents = None\<rparr>"

definition table_block :: structural_element where
  "table_block =
     \<lparr>paragraph = None, table = Some (JObj [(''rows'', JNum 2)]),
      sectionBreak = None, tableOfContents = None\<rparr>"

text \<open>A paragraph block that carries no \<^verbatim>\<open>elements\<close>.\<close>

definition bare_paragraph :: structural_element where
  "bare_paragraph =
     \<lparr>paragraph = Some \<lparr>elements = None\<rparr>,
      table = None, sectionBreak = None, tableOfContents = None\<rparr>"

text \<open>Two paragraphs, \<^verbatim>\<open>Hello, \<close> and \<^verbatim>\<open>world!\<close>, each split across two runs,
  with a run that has no text and a table between them.\<close>

definition hello_body :: doc_body where
  "hello_body =
     \<lparr>body_content =
        Some [paragraph_of [text_element ''Hel'', \<lparr>textRun = None\<rparr>, text_element ''lo, ''],
              table_block,
              paragraph_of [text_element ''wor'', text_element ''ld!'']]\<rparr>"

definition hello_document :: document where
  "hello_document =
     \<lparr>documentId = Some ''doc-7'', title = Some ''Greeting'', body = Some hello_body\<rparr>"

definition table_document :: document where
  "table_document =
     \<lparr>documentId = Some ''doc-8'', title = Some ''Prices'',
      body = Some \<lparr>body_content = Some [table_block]\<rparr>\<rparr>"

definition gap_body :: doc_body where
  "gap_body =
     \<lparr>body_content =
        Some [paragraph_of [text_element ''Hello, ''],
              bare_paragraph,
              paragraph_of [text_element ''world!'']]\<rparr>"

definition gap_document :: document where
  "gap_document =
     \<lparr>documentId = Some ''doc-9'', title = Some ''Greeting'', body = Some gap_body\<rparr>"

text \<open>The paragraph \<^verbatim>\<open>Hello, world!\<close> with, between its two runs, a text run that
  carries no \<^verbatim>\<open>content\<close>.\<close>

definition blank_body :: doc_body where
  "blank_body =
     \<lparr>body_content =
        Some [paragraph_of [text_element ''Hello, '',
                            \<lparr>textRun = Some \<lparr>content = None\<rparr>\<rparr>,
                            text_element ''world!'']]\<rparr>"

definition blank_document :: document where
  "blank_document =
     \<lparr>documentId = Some ''doc-10'', title = Some ''Greeting'', body = Some blank_body\<rparr>"

definition bare_document :: document where
  "bare_document =
     \<lparr>documentId = Some ''doc-3'', title = Some ''Draft'',
      body = Some \<lparr>body_content = Some [bare_paragraph]\<rparr>\<rparr>"

text \<open>Collaborators that answer every call; the Letters folder exists.\<close>

definition world_ready :: collab where
  "world_ready =
     \<lparr>files_list = (\<lambda>tok q flds. if q = folder_q then Inr (Some [letters_folder]) else Inr (Some [])),
      files_create = (\<lambda>tok nm mt flds. Inr new_folder),
      documents_create = (\<lambda>tok t. Inr new_document),
      documents_batchUpdate = (\<lambda>tok d rs. Inr ()),
      files_update = (\<lambda>tok d p flds. Inr ()),
      documents_get =
        (\<lambda>tok d. if d = ''doc-7'' then Inr hello_document
                  else if d = ''doc-8'' then Inr table_document
                  else if d = ''doc-9'' then Inr gap_document
                  else if d = ''doc-3'' then Inr bare_document
                  else if d = ''doc-10'' then Inr blank_document
                  else Inr new_document)\<rparr>"

text \<open>The same, with no Letters folder yet.\<close>

definition world_no_folder :: collab where
  "world_no_folder = world_ready\<lparr>files_list := (\<lambda>tok q flds. Inr (Some []))\<rparr>"

text \<open>The same as \<open>world_ready\<close>, but the text insertion is rejected.\<close>

definition world_insert_fails :: collab where
  "world_insert_fails =
     world_ready\<lparr>documents_batchUpdate := (\<lambda>tok d rs. Inl (ApiError ''quota exceeded''))\<rparr>"

text \<open>Collaborators that reject every call.\<close>

definition world_down :: collab where
  "world_down =
     \<lparr>files_list = (\<lambda>tok q flds. Inl (ApiError ''ECONNREFUSED'')),
      files_create = (\<lambda>tok nm mt flds. Inl (ApiError ''ECONNREFUSED'')),
      documents_create = (\<lambda>tok t. Inl (ApiError ''ECONNREFUSED'')),
      documents_batchUpdate = (\<lambda>tok d rs. Inl (ApiError ''ECONNREFUSED'')),
      files_update = (\<lambda>tok d p flds. Inl (ApiError ''ECONNREFUSED'')),
      documents_get = (\<lambda>tok d. Inl (ApiError ''ECONNREFUSED''))\<rparr>"

section \<open>Properties\<close>

subsection \<open>Auxiliary facts\<close>

lemma extract_items_no_paragraph:
  "\<forall>item \<in> set items. paragraph item = None \<Longrightarrow> extract_items items acc = Inr acc"
  by (induction items arbitrary: acc) auto

lemma extract_elements_append:
  "list_all (\<lambda>el. case textRun el of None \<Rightarrow> True | Some run \<Rightarrow> content run \<noteq> None) els \<Longrightarrow>
   extract_elements els acc = acc @ concat (run_fragments els)"
  by (induction els arbitrary: acc)
     (auto simp: run_fragments_def interp_def split: option.splits)

lemma extract_items_fragments:
  "paragraphs_have_elements items \<Longrightarrow> runs_have_content items \<Longrightarrow>
   extract_items items acc = Inr (acc @ concat (fragments items))"
proof (induction items arbitrary: acc)
  case Nil
  show ?case by (simp add: fragments_def)
next
  case (Cons item rest)
  from Cons.prems have rest: "paragraphs_have_elements rest" "runs_have_content rest"
    by (simp_all add: paragraphs_have_elements_def runs_have_content_def)
  show ?case
  proof (cases "paragraph item")
    case None
    with Cons.IH [OF rest] show ?thesis
      by (simp add: fragments_def block_fragments_def)
  next
    case (Some p)
    with Cons.prems obtain els where els: "elements p = Some els"
      by (auto simp: paragraphs_have_elements_def)
    with Some Cons.prems
    have "list_all (\<lambda>el. case textRun el of None \<Rightarrow> True | Some run \<Rightarrow> content run \<noteq> None) els"
      by (simp add: runs_have_content_def)
    with els Some Cons.IH [OF rest] show ?thesis
      by (simp add: fragments_def block_fragments_def extract_elements_append)
  qed
qed

lemma extract_items_total_iff:
  "(\<exists>s. extract_items items acc = Inr s) \<longleftrightarrow> paragraphs_have_elements items"
proof (induction items arbitrary: acc)
  case Nil
  show ?case by (simp add: paragraphs_have_elements_def)
next
  case (Cons item rest)
  show ?case
  proof (cases "paragraph item")
    case None
    with Cons.IH show ?thesis by (simp add: paragraphs_have_elements_def)
  next
    case (Some p)
    show ?thesis
    proof (cases "elements p")
      case None
      with Some show ?thesis by (simp add: paragraphs_have_elements_def)
    next
      case (Some els)
      with \<open>paragraph item = Some p\<close> Cons.IH show ?thesis
        by (simp add: paragraphs_have_elements_def)
    qed
  qed
qed

lemma extract_items_abort:
  "\<not> paragraphs_have_elements items \<Longrightarrow> extract_items items acc = Inl TypeError"
proof (induction items arbitrary: acc)
  case Nil
  then show ?case by (simp add: paragraphs_have_elements_def)
next
  case (Cons item rest)
  then show ?case
    by (cases "paragraph item"; cases "elements (the (paragraph item))")
       (auto simp: paragraphs_have_elements_def)
qed

lemma ensure_folder_cases:
  "(\<exists>r. ensure_folder W tok = ([DriveFilesList folder_q ''files(id, name)''], r)) \<or>
   (\<exists>r. ensure_folder W tok =
      ([DriveFilesList folder_q ''files(id, name)'',
        DriveFilesCreate ''Letters'' folder_mime ''id''], r))"
  by (auto simp: ensure_folder_def split: sum.splits option.splits)

lemma ensure_folder_calls:
  assumes "ensure_folder W tok = (tr, r)"
  shows "tr = [DriveFilesList folder_q ''files(id, name)''] \<or>
         tr = [DriveFilesList folder_q ''files(id, name)'',
               DriveFilesCreate ''Letters'' folder_mime ''id'']"
  using assms ensure_folder_cases [of W tok] by auto

lemma ensure_folder_rejected:
  assumes "ensure_folder W tok = (tr, r)" and "c \<in> set tr" and "rejected W tok c = Some e"
  shows "r = Inl e \<and> last tr = c"
  using assms
  by (auto simp: ensure_folder_def rejected_def split: sum.splits option.splits if_splits)

lemma ensure_folder_ok_no_reject:
  assumes "ensure_folder W tok = (tr, Inr fid)" and "c \<in> set tr"
  shows "rejected W tok c = None"
  using assms
  by (auto simp: ensure_folder_def rejected_def split: sum.splits option.splits if_splits)

lemma post_letters_try_rejected:
  assumes run: "post_letters_try W c t tok = (tr, r)"
    and mem: "x \<in> set tr" and rej: "rejected W tok x = Some e"
  shows "r = Inl e \<and> last tr = x"
proof -
  obtain tr0 r0 where ef: "ensure_folder W tok = (tr0, r0)"
    by (cases "ensure_folder W tok") auto
  show ?thesis
  proof (cases r0)
    case (Inl e0)
    with ef run have "tr = tr0" "r = Inl e0"
      by (simp_all add: post_letters_try_def)
    with ef Inl mem rej show ?thesis
      using ensure_folder_rejected [of W tok tr0 r0 x e] by simp
  next
    case (Inr fid)
    with ef have ok: "\<And>y. y \<in> set tr0 \<Longrightarrow> rejected W tok y = None"
      using ensure_folder_ok_no_reject [of W tok tr0 fid] by simp
    with rej have notin: "x \<notin> set tr0" by force
    from ef Inr run mem rej notin show ?thesis
      by (auto simp: post_letters_try_def rejected_def Let_def
               split: sum.splits)
  qed
qed

lemma post_letters_try_distinct:
  "distinct (fst (post_letters_try W c t tok))"
proof -
  obtain tr0 r0 where ef: "ensure_folder W tok = (tr0, r0)"
    by (cases "ensure_folder W tok") auto
  from ensure_folder_calls [OF ef] ef show ?thesis
    by (auto simp: post_letters_try_def Let_def split: sum.splits)
qed

lemma post_letters_calls_exact:
  assumes "truthy c" and "truthy t" and "truthy tok"
  shows "calls (post_letters W c t tok) = up_to_first (step_fails W tok) (letter_steps W c t tok)"
proof (cases "files_list W tok folder_q ''files(id, name)''")
  case (Inl e)
  with assms show ?thesis
    by (simp add: post_letters_def post_letters_try_def ensure_folder_def letter_steps_def
          folder_steps_def step_fails_def rejected_def)
next
  case (Inr fl)
  show ?thesis
  proof (cases fl)
    case None
    with Inr assms show ?thesis
      by (simp add: post_letters_def post_letters_try_def ensure_folder_def letter_steps_def
            folder_steps_def step_fails_def rejected_def)
  next
    case (Some fs)
    show ?thesis
    proof (cases fs)
      case Nil
      with Inr Some assms show ?thesis
        by (auto simp: post_letters_def post_letters_try_def ensure_folder_def letter_steps_def
              folder_steps_def step_fails_def rejected_def created_document_id_def
              letters_folder_id_def Let_def
            split: sum.splits)
    next
      case (Cons f rest)
      with Inr Some assms show ?thesis
        by (auto simp: post_letters_def post_letters_try_def ensure_folder_def letter_steps_def
              folder_steps_def step_fails_def rejected_def created_document_id_def
              letters_folder_id_def Let_def
            split: sum.splits)
    qed
  qed
qed

lemma post_letters_response_exact:
  assumes "truthy c" and "truthy t" and "truthy tok"
  shows "response (post_letters W c t tok) =
           (if list_ex (step_fails W tok) (letter_steps W c t tok)
            then \<lparr>status = 500, json = ErrorJson ''Failed to save letter to Google Drive''\<rparr>
            else \<lparr>status = 201,
                  json = SavedJson ''Letter saved successfully'' (created_document_id W tok t)
                           (document_url (created_document_id W tok t))\<rparr>)"
proof (cases "files_list W tok folder_q ''files(id, name)''")
  case (Inl e)
  with assms show ?thesis
    by (simp add: post_letters_def post_letters_try_def ensure_folder_def letter_steps_def
          folder_steps_def step_fails_def rejected_def)
next
  case (Inr fl)
  show ?thesis
  proof (cases fl)
    case None
    with Inr assms show ?thesis
      by (simp add: post_letters_def post_letters_try_def ensure_folder_def letter_steps_def
            folder_steps_def step_fails_def rejected_def)
  next
    case (Some fs)
    show ?thesis
    proof (cases fs)
      case Nil
      with Inr Some assms show ?thesis
        by (auto simp: post_letters_def post_letters_try_def ensure_folder_def letter_steps_def
              folder_steps_def step_fails_def rejected_def created_document_id_def
              letters_folder_id_def Let_def
            split: sum.splits)
    next
      case (Cons f rest)
      with Inr Some assms show ?thesis
        by (auto simp: post_letters_def post_letters_try_def ensure_folder_def letter_steps_def
              folder_steps_def step_fails_def rejected_def created_document_id_def
              letters_folder_id_def Let_def
            split: sum.splits)
    qed
  qed
qed

lemma letter_steps_distinct: "distinct (letter_steps W c t tok)"
  by (simp add: letter_steps_def folder_steps_def)

lemma up_to_first_none: "\<not> list_ex P xs \<Longrightarrow> up_to_first P xs = xs"
  by (induction xs) auto

lemma up_to_first_last:
  "x \<in> set (up_to_first P xs) \<Longrightarrow> P x \<Longrightarrow> last (up_to_first P xs) = x"
  by (induction xs) (auto split: if_splits)

lemma folder_q_not_letters_q: "folder_q \<noteq> letters_q fid"
  by (simp add: folder_q_def letters_q_def)

lemma get_letters_try_rejected:
  assumes "get_letters_try W tok = (tr, r)"
    and "x \<in> set tr" and "rejected W tok x = Some e"
  shows "r = Inl e \<and> last tr = x"
  using assms folder_q_not_letters_q
  by (auto simp: get_letters_try_def rejected_def Let_def
           split: sum.splits option.splits if_splits)

lemma get_letters_try_distinct: "distinct (fst (get_letters_try W tok))"
  using folder_q_not_letters_q
  by (auto simp: get_letters_try_def Let_def split: sum.splits option.splits)

lemma get_letter_try_rejected:
  assumes "get_letter_try W i tok = (tr, r)"
    and "x \<in> set tr" and "rejected W tok x = Some e"
  shows "r = Inl e \<and> tr = [x]"
  using assms
  by (auto simp: get_letter_try_def rejected_def split: sum.splits)

text \<open>The sample collaborators and documents, evaluated.\<close>

lemma world_ready_simps:
  "files_list world_ready tok folder_q flds = Inr (Some [letters_folder])"
  "files_create world_ready tok nm mt flds = Inr new_folder"
  "documents_create world_ready tok t = Inr new_document"
  "documents_batchUpdate world_ready tok d rs = Inr ()"
  "files_update world_ready tok d p flds = Inr ()"
  "documents_get world_ready tok ''doc-7'' = Inr hello_document"
  "documents_get world_ready tok ''doc-8'' = Inr table_document"
  "documents_get world_ready tok ''doc-9'' = Inr gap_document"
  "documents_get world_ready tok ''doc-3'' = Inr bare_document"
  "documents_get world_ready tok ''doc-10'' = Inr blank_document"
  by (simp_all add: world_ready_def)

lemma world_no_folder_simps:
  "files_list world_no_folder tok q flds = Inr (Some [])"
  "files_create world_no_folder tok nm mt flds = Inr new_folder"
  "documents_create world_no_folder tok t = Inr new_document"
  "documents_batchUpdate world_no_folder tok d rs = Inr ()"
  "files_update world_no_folder tok d p flds = Inr ()"
  by (simp_all add: world_no_folder_def world_ready_def)

lemma world_insert_fails_simps:
  "files_list world_insert_fails tok folder_q flds = Inr (Some [letters_folder])"
  "documents_create world_insert_fails tok t = Inr new_document"
  "documents_batchUpdate world_insert_fails tok d rs = Inl (ApiError ''quota exceeded'')"
  by (simp_all add: world_insert_fails_def world_ready_def)

lemma world_down_simps:
  "files_list world_down tok q flds = Inl (ApiError ''ECONNREFUSED'')"
  "documents_get world_down tok d = Inl (ApiError ''ECONNREFUSED'')"
  by (simp_all add: world_down_def)

lemma hello_fragments: "concat (fragments (blocks hello_body)) = ''Hello, world!''"
  by (simp add: fragments_def block_fragments_def run_fragments_def blocks_def hello_body_def
        paragraph_of_def text_element_def table_block_def)

lemma hello_has_elements: "paragraphs_have_elements (blocks hello_body)"
  by (simp add: paragraphs_have_elements_def blocks_def hello_body_def
        paragraph_of_def table_block_def)

lemma hello_has_content: "runs_have_content (blocks hello_body)"
  by (simp add: runs_have_content_def blocks_def hello_body_def
        paragraph_of_def text_element_def table_block_def)

lemma blank_fragments: "concat (fragments (blocks blank_body)) = ''Hello, world!''"
  by (simp add: fragments_def block_fragments_def run_fragments_def blocks_def blank_body_def
        paragraph_of_def text_element_def)

lemma blank_extract: "extract_content blank_document = Inr ''Hello, undefinedworld!''"
  by (simp add: extract_content_def blank_document_def blank_body_def paragraph_of_def
        text_element_def interp_def)

lemma gap_fragments: "concat (fragments (blocks gap_body)) = ''Hello, world!''"
  by (simp add: fragments_def block_fragments_def run_fragments_def blocks_def gap_body_def
        paragraph_of_def text_element_def bare_paragraph_def)

lemma gap_extract: "extract_content gap_document = Inl TypeError"
  by (simp add: extract_content_def gap_document_def gap_body_def paragraph_of_def
        text_element_def bare_paragraph_def)

subsection \<open>Creating a letter\<close>

text \<open>
  Claim C1, as stated, says that every request whose three fields are present makes all
  four downstream steps. It does not: when a step fails, the steps after it are never
  made. Here the Letters folder exists and the document is created, the text insertion is
  rejected, and the handler stops after three calls: the document is never moved into the
  folder.
\<close>

theorem post_letters_four_calls_counterexample:
  "truthy (JStr ''Dear Ann, thank you.'') \<and> truthy (JStr ''June letter'') \<and>
   truthy (JStr ''ya29.token'') \<and>
   calls (post_letters world_insert_fails
            (JStr ''Dear Ann, thank you.'') (JStr ''June letter'') (JStr ''ya29.token'')) =
     [DriveFilesList folder_q ''files(id, name)'',
      DocsCreate (JStr ''June letter''),
      DocsBatchUpdate (Some ''doc-1'') [InsertText 1 (JStr ''Dear Ann, thank you.'')]] \<and>
   length (calls (post_letters world_insert_fails
            (JStr ''Dear Ann, thank you.'') (JStr ''June letter'') (JStr ''ya29.token''))) = 3 \<and>
   status (response (post_letters world_insert_fails
            (JStr ''Dear Ann, thank you.'') (JStr ''June letter'') (JStr ''ya29.token''))) = 500"
  by (simp add: post_letters_def post_letters_try_def ensure_folder_def
        world_insert_fails_simps letters_folder_def new_document_def)

text \<open>
  Claim C1, amended. For every create-letter request with non-missing content, title and
  accessToken (each passing the presence check), the handler attempts four downstream
  steps in this order (\<open>letter_steps\<close>): the folder step (the lookup, followed by one create
  call exactly when the lookup found nothing), the creation of a document with the given
  title, one batch update whose only request inserts the whole content as one text run at
  index 1 of the created document, and the reparenting of that document into the folder.
  It stops at the first call that fails, that is, a call that is rejected or a folder
  lookup whose reply has no list of files: its calls are exactly the steps up to that one,
  the failing call is the last call, and the response is the generic 500. When no call
  fails its calls are exactly the four steps and the response is 201 with the id and the
  link of the created document. No step occurs twice (no retry) and the content goes into
  one insertion (no chunking).
\<close>

theorem post_letters_pipeline:
  assumes "truthy content'" and "truthy title'" and "truthy accessToken"
  shows "calls (post_letters W content' title' accessToken) =
           up_to_first (step_fails W accessToken) (letter_steps W content' title' accessToken) \<and>
         (c \<in> set (calls (post_letters W content' title' accessToken)) \<and>
          step_fails W accessToken c \<longrightarrow>
            last (calls (post_letters W content' title' accessToken)) = c) \<and>
         (\<not> list_ex (step_fails W accessToken) (letter_steps W content' title' accessToken) \<longrightarrow>
            calls (post_letters W content' title' accessToken) =
              letter_steps W content' title' accessToken) \<and>
         response (post_letters W content' title' accessToken) =
           (if list_ex (step_fails W accessToken) (letter_steps W content' title' accessToken)
            then \<lparr>status = 500, json = ErrorJson ''Failed to save letter to Google Drive''\<rparr>
            else \<lparr>status = 201,
                  json = SavedJson ''Letter saved successfully''
                           (created_document_id W accessToken title')
                           (document_url (created_document_id W accessToken title'))\<rparr>) \<and>
         distinct (letter_steps W content' title' accessToken) \<and>
         letter_steps W content' title' accessToken =
           DriveFilesList folder_q ''files(id, name)'' #
           (if files_list W accessToken folder_q ''files(id, name)'' = Inr (Some [])
            then [DriveFilesCreate ''Letters'' folder_mime ''id''] else []) @
           [DocsCreate title',
            DocsBatchUpdate (created_document_id W accessToken title') [InsertText 1 content'],
            DriveFilesUpdate (created_document_id W accessToken title')
              (letters_folder_id W accessToken) ''id, parents'']"
proof -
  have exact: "calls (post_letters W content' title' accessToken) =
      up_to_first (step_fails W accessToken) (letter_steps W content' title' accessToken)"
    using assms by (rule post_letters_calls_exact)
  have stop: "c \<in> set (calls (post_letters W content' title' accessToken)) \<and>
      step_fails W accessToken c \<longrightarrow>
        last (calls (post_letters W content' title' accessToken)) = c"
    using exact up_to_first_last [of c "step_fails W accessToken"
        "letter_steps W content' title' accessToken"]
    by simp
  have full: "\<not> list_ex (step_fails W accessToken) (letter_steps W content' title' accessToken)
      \<longrightarrow> calls (post_letters W content' title' accessToken) =
            letter_steps W content' title' accessToken"
    using exact up_to_first_none [of "step_fails W accessToken"
        "letter_steps W content' title' accessToken"]
    by simp
  have resp: "response (post_letters W content' title' accessToken) =
      (if list_ex (step_fails W accessToken) (letter_steps W content' title' accessToken)
       then \<lparr>status = 500, json = ErrorJson ''Failed to save letter to Google Drive''\<rparr>
       else \<lparr>status = 201,
             json = SavedJson ''Letter saved successfully''
                      (created_document_id W accessToken title')
                      (document_url (created_document_id W accessToken title'))\<rparr>)"
    using assms by (rule post_letters_response_exact)
  have shape: "letter_steps W content' title' accessToken =
      DriveFilesList folder_q ''files(id, name)'' #
      (if files_list W accessToken folder_q ''files(id, name)'' = Inr (Some [])
       then [DriveFilesCreate ''Letters'' folder_mime ''id''] else []) @
      [DocsCreate title',
       DocsBatchUpdate (created_document_id W accessToken title') [InsertText 1 content'],
       DriveFilesUpdate (created_document_id W accessToken title')
         (letters_folder_id W accessToken) ''id, parents'']"
    by (simp add: letter_steps_def folder_steps_def)
  from exact stop full resp letter_steps_distinct [of W content' title' accessToken] shape
  show ?thesis by blast
qed

lemma no_folder_steps:
  "letter_steps world_no_folder (JStr ''Dear Ann, thank you.'') (JStr ''June letter'')
     (JStr ''ya29.token'') =
     [DriveFilesList folder_q ''files(id, name)'',
      DriveFilesCreate ''Letters'' folder_mime ''id'',
      DocsCreate (JStr ''June letter''),
      DocsBatchUpdate (Some ''doc-1'') [InsertText 1 (JStr ''Dear Ann, thank you.'')],
      DriveFilesUpdate (Some ''doc-1'') (Some ''folder-2'') ''id, parents'']"
  by (simp add: letter_steps_def folder_steps_def created_document_id_def
        letters_folder_id_def world_no_folder_simps new_folder_def new_document_def)

lemma no_folder_no_failure:
  "\<not> list_ex (step_fails world_no_folder (JStr ''ya29.token''))
       (letter_steps world_no_folder (JStr ''Dear Ann, thank you.'') (JStr ''June letter'')
          (JStr ''ya29.token''))"
  by (simp add: no_folder_steps step_fails_def rejected_def world_no_folder_simps)

theorem post_letters_pipeline_witness:
  "truthy (JStr ''Dear Ann, thank you.'') \<and> truthy (JStr ''June letter'') \<and>
   truthy (JStr ''ya29.token'') \<and>
   \<not> list_ex (step_fails world_no_folder (JStr ''ya29.token''))
       (letter_steps world_no_folder (JStr ''Dear Ann, thank you.'') (JStr ''June letter'')
          (JStr ''ya29.token'')) \<and>
   calls (post_letters world_no_folder
     (JStr ''Dear Ann, thank you.'') (JStr ''June letter'') (JStr ''ya29.token'')) =
     [DriveFilesList folder_q ''files(id, name)'',
      DriveFilesCreate ''Letters'' folder_mime ''id'',
      DocsCreate (JStr ''June letter''),
      DocsBatchUpdate (Some ''doc-1'') [InsertText 1 (JStr ''Dear Ann, thank you.'')],
      DriveFilesUpdate (Some ''doc-1'') (Some ''folder-2'') ''id, parents''] \<and>
   response (post_letters world_no_folder
     (JStr ''Dear Ann, thank you.'') (JStr ''June letter'') (JStr ''ya29.token'')) =
     \<lparr>status = 201,
      json = SavedJson ''Letter saved successfully'' (Some ''doc-1'')
               ''https://docs.google.com/document/d/doc-1/edit''\<rparr>"
  using post_letters_pipeline
    [where content' = "JStr ''Dear Ann, thank you.''" and title' = "JStr ''June letter''"
       and accessToken = "JStr ''ya29.token''" and W = world_no_folder]
    no_folder_no_failure no_folder_steps
  by (simp add: created_document_id_def world_no_folder_simps new_document_def
        document_url_def interp_def)




text \<open>
  Claim C9. The presence check is a truthiness test: the values it takes for absent are
  exactly \<^verbatim>\<open>undefined\<close>, \<^verbatim>\<open>null\<close>, \<^verbatim>\<open>false\<close>, zero and the empty string. A
  create-letter request in which content, title or accessToken is the empty string, or any
  other such value, is answered with status 400 exactly as a request with the fields
  missing, and no downstream call is made.
\<close>

theorem post_letters_empty_field:
  "(\<not> truthy v \<longleftrightarrow>
      v = JUndefined \<or> v = JNull \<or> v = JBool False \<or> v = JNum 0 \<or> v = JStr []) \<and>
   (content' = JStr [] \<or> title' = JStr [] \<or> accessToken = JStr [] \<or>
    \<not> truthy content' \<or> \<not> truthy title' \<or> \<not> truthy accessToken \<longrightarrow>
      post_letters W content' title' accessToken =
        \<lparr>response = \<lparr>status = 400, json = ErrorJson ''Missing required fields''\<rparr>,
         calls = [], logged = []\<rparr> \<and>
      post_letters W content' title' accessToken =
        post_letters W JUndefined JUndefined JUndefined)"
  by (cases v) (auto simp: post_letters_def)

theorem post_letters_empty_field_witness:
  "\<not> truthy (JStr []) \<and>
   post_letters world_ready (JStr []) (JStr ''June letter'') (JStr ''ya29.token'') =
     \<lparr>response = \<lparr>status = 400, json = ErrorJson ''Missing required fields''\<rparr>,
      calls = [], logged = []\<rparr> \<and>
   post_letters world_ready (JStr []) (JStr ''June letter'') (JStr ''ya29.token'') =
     post_letters world_ready JUndefined JUndefined JUndefined"
  using post_letters_empty_field
    [where v = "JStr []" and content' = "JStr []" and title' = "JStr ''June letter''"
       and accessToken = "JStr ''ya29.token''" and W = world_ready]
  by auto

text \<open>
  Claim C5. The folder step of create-letter first asks Drive for the folders that are not
  trashed and are named Letters (the query \<open>folder_q\<close>). When the answer is not empty it
  makes no other call and takes the id of the first entry. When the answer is empty it
  makes exactly one create call, with the name Letters and the folder type, and takes the
  id of the folder just created.
\<close>

theorem ensure_folder_steps:
  "(files_list W accessToken folder_q ''files(id, name)'' = Inr (Some (f # fs)) \<longrightarrow>
      ensure_folder W accessToken =
        ([DriveFilesList folder_q ''files(id, name)''], Inr (file_id f))) \<and>
   (files_list W accessToken folder_q ''files(id, name)'' = Inr (Some []) \<longrightarrow>
      fst (ensure_folder W accessToken) =
        [DriveFilesList folder_q ''files(id, name)'',
         DriveFilesCreate ''Letters'' ''application/vnd.google-apps.folder'' ''id''] \<and>
      (\<forall>folder. files_create W accessToken ''Letters'' ''application/vnd.google-apps.folder'' ''id''
                  = Inr folder \<longrightarrow>
         snd (ensure_folder W accessToken) = Inr (file_id folder))) \<and>
   folder_q =
     ''mimeType='application/vnd.google-apps.folder' and name='Letters' and trashed=false''"
  by (auto simp: ensure_folder_def folder_mime_def folder_q_def split: sum.splits)

theorem ensure_folder_steps_witness:
  "files_list world_ready (JStr ''ya29.token'') folder_q ''files(id, name)''
     = Inr (Some [letters_folder]) \<and>
   ensure_folder world_ready (JStr ''ya29.token'') =
     ([DriveFilesList folder_q ''files(id, name)''], Inr (Some ''folder-1'')) \<and>
   files_list world_no_folder (JStr ''ya29.token'') folder_q ''files(id, name)''
     = Inr (Some []) \<and>
   files_create world_no_folder (JStr ''ya29.token'') ''Letters''
     ''application/vnd.google-apps.folder'' ''id'' = Inr new_folder \<and>
   fst (ensure_folder world_no_folder (JStr ''ya29.token'')) =
     [DriveFilesList folder_q ''files(id, name)'',
      DriveFilesCreate ''Letters'' ''application/vnd.google-apps.folder'' ''id''] \<and>
   snd (ensure_folder world_no_folder (JStr ''ya29.token'')) = Inr (Some ''folder-2'')"
  using ensure_folder_steps
    [where W = world_ready and accessToken = "JStr ''ya29.token''" and f = letters_folder
       and fs = "[]"]
    ensure_folder_steps
    [where W = world_no_folder and accessToken = "JStr ''ya29.token''"]
  by (simp add: world_ready_simps world_no_folder_simps letters_folder_def new_folder_def)

subsection \<open>Listing the letters\<close>

text \<open>
  Claim C6. A list-letters request that carries an access token, when the folder lookup
  finds no Letters folder, is answered with success and an empty array of letters; the
  lookup is the only downstream call, so the folder's contents are never queried.
\<close>

theorem get_letters_no_folder:
  assumes "truthy accessToken"
    and "files_list W accessToken folder_q ''files(id, name)'' = Inr (Some [])"
  shows "get_letters W accessToken =
           \<lparr>response = \<lparr>status = 200, json = LettersJson (Some [])\<rparr>,
            calls = [DriveFilesList folder_q ''files(id, name)''], logged = []\<rparr>"
  using assms by (simp add: get_letters_def get_letters_try_def)

theorem get_letters_no_folder_witness:
  "truthy (JStr ''ya29.token'') \<and>
   files_list world_no_folder (JStr ''ya29.token'') folder_q ''files(id, name)''
     = Inr (Some []) \<and>
   get_letters world_no_folder (JStr ''ya29.token'') =
     \<lparr>response = \<lparr>status = 200, json = LettersJson (Some [])\<rparr>,
      calls = [DriveFilesList folder_q ''files(id, name)''], logged = []\<rparr>"
  using get_letters_no_folder [where W = world_no_folder and accessToken = "JStr ''ya29.token''"]
  by (simp add: world_no_folder_simps)

text \<open>
  Claim C7. A list-letters or read-letter request without an access token is answered
  with status 400 and makes no downstream call at all.
\<close>

theorem get_missing_token:
  "get_letters W JUndefined =
     \<lparr>response = \<lparr>status = 400, json = ErrorJson ''Access token is required''\<rparr>,
      calls = [], logged = []\<rparr> \<and>
   get_letter W id' JUndefined =
     \<lparr>response = \<lparr>status = 400, json = ErrorJson ''Access token is required''\<rparr>,
      calls = [], logged = []\<rparr>"
  by (simp add: get_letters_def get_letter_def)

theorem get_missing_token_witness:
  "calls (get_letters world_ready JUndefined) = [] \<and>
   status (response (get_letters world_ready JUndefined)) = 400 \<and>
   calls (get_letter world_ready ''doc-7'' JUndefined) = [] \<and>
   status (response (get_letter world_ready ''doc-7'' JUndefined)) = 400"
  using get_missing_token [where W = world_ready and id' = "''doc-7''"]
  by simp

subsection \<open>Reading a letter\<close>

text \<open>
  Claim C2, as stated, covers every fetched document that has a body. It fails on two
  kinds of body. In the first document a paragraph block without run elements stands
  between the paragraphs \<^verbatim>\<open>Hello, \<close> and \<^verbatim>\<open>world!\<close>: the fragments concatenate to
  \<^verbatim>\<open>Hello, world!\<close>, and the handler answers 500 with no content. In the second a text
  run without text stands between the two runs of one paragraph: it carries no fragment,
  and yet the content is \<^verbatim>\<open>Hello, undefinedworld!\<close>.
\<close>

theorem get_letter_text_counterexample:
  "truthy (JStr ''ya29.token'') \<and>
   documents_get world_ready (JStr ''ya29.token'') ''doc-9'' = Inr gap_document \<and>
   body gap_document = Some gap_body \<and>
   concat (fragments (blocks gap_body)) = ''Hello, world!'' \<and>
   get_letter world_ready ''doc-9'' (JStr ''ya29.token'') =
     \<lparr>response = \<lparr>status = 500,
                  json = ErrorJson ''Failed to fetch letter from Google Drive''\<rparr>,
      calls = [DocsGet ''doc-9''], logged = [(''Error fetching letter:'', TypeError)]\<rparr> \<and>
   documents_get world_ready (JStr ''ya29.token'') ''doc-10'' = Inr blank_document \<and>
   body blank_document = Some blank_body \<and>
   concat (fragments (blocks blank_body)) = ''Hello, world!'' \<and>
   get_letter world_ready ''doc-10'' (JStr ''ya29.token'') =
     \<lparr>response = \<lparr>status = 200,
                  json = LetterJson (Some ''doc-10'') (Some ''Greeting'')
                           ''Hello, undefinedworld!''\<rparr>,
      calls = [DocsGet ''doc-10''], logged = []\<rparr>"
  by (simp add: gap_fragments gap_extract blank_fragments blank_extract get_letter_def
        get_letter_try_def world_ready_simps)
     (simp add: gap_document_def blank_document_def)

text \<open>
  Claim C2, amended. For every fetched document whose body is present, whose paragraph
  blocks each carry a sequence of run elements and whose text runs each carry their text,
  the content of the read-letter response is the concatenation, in document order, of the
  text fragments of the run elements of the paragraph blocks: blocks in order, runs in
  order within each paragraph, only runs with a text fragment, nothing between the
  fragments. The response carries the document's id and title and has status 200.
\<close>

theorem get_letter_text:
  assumes "truthy accessToken"
    and "documents_get W accessToken id' = Inr doc"
    and "body doc = Some b"
    and "paragraphs_have_elements (blocks b)"
    and "runs_have_content (blocks b)"
  shows "get_letter W id' accessToken =
           \<lparr>response = \<lparr>status = 200,
                        json = LetterJson (documentId doc) (title doc)
                                 (concat (fragments (blocks b)))\<rparr>,
            calls = [DocsGet id'], logged = []\<rparr>"
proof (cases "body_content b")
  case None
  with assms show ?thesis
    by (simp add: get_letter_def get_letter_try_def extract_content_def blocks_def fragments_def)
next
  case (Some items)
  with assms have "extract_items items [] = Inr (concat (fragments items))"
    using extract_items_fragments [of items "[]"] by (simp add: blocks_def)
  with assms Some show ?thesis
    by (simp add: get_letter_def get_letter_try_def extract_content_def blocks_def)
qed

theorem get_letter_text_witness:
  "truthy (JStr ''ya29.token'') \<and>
   documents_get world_ready (JStr ''ya29.token'') ''doc-7'' = Inr hello_document \<and>
   body hello_document = Some hello_body \<and>
   paragraphs_have_elements (blocks hello_body) \<and>
   runs_have_content (blocks hello_body) \<and>
   get_letter world_ready ''doc-7'' (JStr ''ya29.token'') =
     \<lparr>response = \<lparr>status = 200,
                  json = LetterJson (Some ''doc-7'') (Some ''Greeting'') ''Hello, world!''\<rparr>,
      calls = [DocsGet ''doc-7''], logged = []\<rparr>"
  using get_letter_text
    [where W = world_ready and accessToken = "JStr ''ya29.token''" and id' = "''doc-7''"
       and doc = hello_document and b = hello_body]
  by (simp add: world_ready_simps hello_has_elements hello_has_content hello_fragments)
     (simp add: hello_document_def)

text \<open>
  Claim C3. For every fetched document that has no structured body (no body, or a body
  without content), and for every fetched document whose body holds only blocks that are
  not paragraphs, the read-letter response has the empty string as content and is not an
  error: status 200, with the document's id and title.
\<close>

theorem get_letter_no_text:
  assumes "truthy accessToken"
    and "documents_get W accessToken id' = Inr doc"
    and "body doc = None \<or>
         (\<exists>b. body doc = Some b \<and> body_content b = None) \<or>
         (\<exists>b items. body doc = Some b \<and> body_content b = Some items \<and>
            (\<forall>item \<in> set items. paragraph item = None))"
  shows "get_letter W id' accessToken =
           \<lparr>response = \<lparr>status = 200, json = LetterJson (documentId doc) (title doc) []\<rparr>,
            calls = [DocsGet id'], logged = []\<rparr>"
  using assms
  by (auto simp: get_letter_def get_letter_try_def extract_content_def extract_items_no_paragraph)

theorem get_letter_no_text_witness:
  "truthy (JStr ''ya29.token'') \<and>
   documents_get world_ready (JStr ''ya29.token'') ''doc-8'' = Inr table_document \<and>
   body table_document = Some \<lparr>body_content = Some [table_block]\<rparr> \<and>
   paragraph table_block = None \<and>
   get_letter world_ready ''doc-8'' (JStr ''ya29.token'') =
     \<lparr>response = \<lparr>status = 200, json = LetterJson (Some ''doc-8'') (Some ''Prices'') []\<rparr>,
      calls = [DocsGet ''doc-8''], logged = []\<rparr> \<and>
   documents_get world_ready (JStr ''ya29.token'') ''doc-1'' = Inr new_document \<and>
   body new_document = None \<and>
   get_letter world_ready ''doc-1'' (JStr ''ya29.token'') =
     \<lparr>response = \<lparr>status = 200,
                  json = LetterJson (Some ''doc-1'') (Some ''June letter'') []\<rparr>,
      calls = [DocsGet ''doc-1''], logged = []\<rparr>"
  using get_letter_no_text
    [where W = world_ready and accessToken = "JStr ''ya29.token''" and id' = "''doc-8''"
       and doc = table_document]
    get_letter_no_text
    [where W = world_ready and accessToken = "JStr ''ya29.token''" and id' = "''doc-1''"
       and doc = new_document]
  by (simp add: world_ready_simps)
     (simp add: world_ready_def table_document_def table_block_def new_document_def)

text \<open>
  Claim C10. The text extraction returns a content exactly when every paragraph block of
  the body carries a sequence of run elements (an empty one will do). When some paragraph
  block carries none, the extraction does not skip that paragraph: it throws, and the
  read-letter request is answered with the generic 500 response, the error going to the
  log.
\<close>

theorem extraction_total_only_with_elements:
  "((\<exists>s. extract_items items acc = Inr s) \<longleftrightarrow> paragraphs_have_elements items) \<and>
   (truthy accessToken \<and> documents_get W accessToken id' = Inr doc \<and>
    body doc = Some b \<and> body_content b = Some items \<and> \<not> paragraphs_have_elements items \<longrightarrow>
      get_letter W id' accessToken =
        \<lparr>response = \<lparr>status = 500,
                     json = ErrorJson ''Failed to fetch letter from Google Drive''\<rparr>,
         calls = [DocsGet id'], logged = [(''Error fetching letter:'', TypeError)]\<rparr>)"
  using extract_items_total_iff [of items acc] extract_items_abort [of items "[]"]
  by (auto simp: get_letter_def get_letter_try_def extract_content_def)

theorem extraction_total_only_with_elements_witness:
  "truthy (JStr ''ya29.token'') \<and>
   documents_get world_ready (JStr ''ya29.token'') ''doc-3'' = Inr bare_document \<and>
   body bare_document = Some \<lparr>body_content = Some [bare_paragraph]\<rparr> \<and>
   \<not> paragraphs_have_elements [bare_paragraph] \<and>
   (\<nexists>s. extract_items [bare_paragraph] [] = Inr s) \<and>
   get_letter world_ready ''doc-3'' (JStr ''ya29.token'') =
     \<lparr>response = \<lparr>status = 500,
                  json = ErrorJson ''Failed to fetch letter from Google Drive''\<rparr>,
      calls = [DocsGet ''doc-3''], logged = [(''Error fetching letter:'', TypeError)]\<rparr>"
  using extraction_total_only_with_elements
    [where W = world_ready and accessToken = "JStr ''ya29.token''" and id' = "''doc-3''"
       and doc = bare_document and b = "\<lparr>body_content = Some [bare_paragraph]\<rparr>"
       and items = "[bare_paragraph]" and acc = "[]"]
  by (simp add: world_ready_simps paragraphs_have_elements_def)
     (simp add: bare_document_def bare_paragraph_def)

subsection \<open>Downstream failures\<close>

text \<open>
  Claim C8. In a create, list or read request, when a downstream call that the handler
  makes is rejected, the handler answers with status 500 and a fixed message, the same
  whatever the error; the error itself goes to the log and nowhere else; the rejected
  call is the last one made, and no call is made twice (nothing is retried).
\<close>

theorem downstream_failure_is_500:
  "(c \<in> set (calls (post_letters W content' title' accessToken)) \<and>
    rejected W accessToken c = Some e \<longrightarrow>
      response (post_letters W content' title' accessToken) =
        \<lparr>status = 500, json = ErrorJson ''Failed to save letter to Google Drive''\<rparr> \<and>
      logged (post_letters W content' title' accessToken) = [(''Error saving letter:'', e)] \<and>
      last (calls (post_letters W content' title' accessToken)) = c \<and>
      distinct (calls (post_letters W content' title' accessToken))) \<and>
   (c \<in> set (calls (get_letters W accessToken)) \<and>
    rejected W accessToken c = Some e \<longrightarrow>
      response (get_letters W accessToken) =
        \<lparr>status = 500, json = ErrorJson ''Failed to fetch letters from Google Drive''\<rparr> \<and>
      logged (get_letters W accessToken) = [(''Error fetching letters:'', e)] \<and>
      last (calls (get_letters W accessToken)) = c \<and>
      distinct (calls (get_letters W accessToken))) \<and>
   (c \<in> set (calls (get_letter W id' accessToken)) \<and>
    rejected W accessToken c = Some e \<longrightarrow>
      response (get_letter W id' accessToken) =
        \<lparr>status = 500, json = ErrorJson ''Failed to fetch letter from Google Drive''\<rparr> \<and>
      logged (get_letter W id' accessToken) = [(''Error fetching letter:'', e)] \<and>
      calls (get_letter W id' accessToken) = [c])"
proof (intro conjI impI)
  assume a: "c \<in> set (calls (post_letters W content' title' accessToken)) \<and>
             rejected W accessToken c = Some e"
  obtain tr r where run: "post_letters_try W content' title' accessToken = (tr, r)"
    by (cases "post_letters_try W content' title' accessToken") auto
  from a have chk: "truthy content' \<and> truthy title' \<and> truthy accessToken"
    by (auto simp: post_letters_def split: if_splits)
  with a run have mem: "c \<in> set tr"
    by (auto simp: post_letters_def split: sum.splits)
  from post_letters_try_rejected [OF run mem] a have r: "r = Inl e" "last tr = c"
    by simp_all
  from post_letters_try_distinct [of W content' title' accessToken] run
  have d: "distinct tr" by simp
  from chk run r d
  show "response (post_letters W content' title' accessToken) =
          \<lparr>status = 500, json = ErrorJson ''Failed to save letter to Google Drive''\<rparr>"
    and "logged (post_letters W content' title' accessToken) = [(''Error saving letter:'', e)]"
    and "last (calls (post_letters W content' title' accessToken)) = c"
    and "distinct (calls (post_letters W content' title' accessToken))"
    by (simp_all add: post_letters_def)
next
  assume a: "c \<in> set (calls (get_letters W accessToken)) \<and> rejected W accessToken c = Some e"
  obtain tr r where run: "get_letters_try W accessToken = (tr, r)"
    by (cases "get_letters_try W accessToken") auto
  from a have chk: "truthy accessToken"
    by (auto simp: get_letters_def split: if_splits)
  with a run have mem: "c \<in> set tr"
    by (auto simp: get_letters_def split: sum.splits)
  from get_letters_try_rejected [OF run mem] a have r: "r = Inl e" "last tr = c"
    by simp_all
  from get_letters_try_distinct [of W accessToken] run
  have d: "distinct tr" by simp
  from chk run r d
  show "response (get_letters W accessToken) =
          \<lparr>status = 500, json = ErrorJson ''Failed to fetch letters from Google Drive''\<rparr>"
    and "logged (get_letters W accessToken) = [(''Error fetching letters:'', e)]"
    and "last (calls (get_letters W accessToken)) = c"
    and "distinct (calls (get_letters W accessToken))"
    by (simp_all add: get_letters_def)
next
  assume a: "c \<in> set (calls (get_letter W id' accessToken)) \<and>
             rejected W accessToken c = Some e"
  obtain tr r where run: "get_letter_try W id' accessToken = (tr, r)"
    by (cases "get_letter_try W id' accessToken") auto
  from a have chk: "truthy accessToken"
    by (auto simp: get_letter_def split: if_splits)
  with a run have mem: "c \<in> set tr"
    by (auto simp: get_letter_def split: sum.splits)
  from get_letter_try_rejected [OF run mem] a have r: "r = Inl e" "tr = [c]"
    by simp_all
  from chk run r
  show "response (get_letter W id' accessToken) =
          \<lparr>status = 500, json = ErrorJson ''Failed to fetch letter from Google Drive''\<rparr>"
    and "logged (get_letter W id' accessToken) = [(''Error fetching letter:'', e)]"
    and "calls (get_letter W id' accessToken) = [c]"
    by (simp_all add: get_letter_def)
qed

theorem downstream_failure_is_500_witness:
  "DocsBatchUpdate (Some ''doc-1'') [InsertText 1 (JStr ''Dear Ann, thank you.'')]
     \<in> set (calls (post_letters world_insert_fails
          (JStr ''Dear Ann, thank you.'') (JStr ''June letter'') (JStr ''ya29.token''))) \<and>
   rejected world_insert_fails (JStr ''ya29.token'')
     (DocsBatchUpdate (Some ''doc-1'') [InsertText 1 (JStr ''Dear Ann, thank you.'')])
     = Some (ApiError ''quota exceeded'') \<and>
   response (post_letters world_insert_fails
     (JStr ''Dear Ann, thank you.'') (JStr ''June letter'') (JStr ''ya29.token'')) =
     \<lparr>status = 500, json = ErrorJson ''Failed to save letter to Google Drive''\<rparr> \<and>
   logged (post_letters world_insert_fails
     (JStr ''Dear Ann, thank you.'') (JStr ''June letter'') (JStr ''ya29.token'')) =
     [(''Error saving letter:'', ApiError ''quota exceeded'')] \<and>
   DriveFilesList folder_q ''files(id, name)''
     \<in> set (calls (get_letters world_down (JStr ''ya29.token''))) \<and>
   rejected world_down (JStr ''ya29.token'') (DriveFilesList folder_q ''files(id, name)'')
     = Some (ApiError ''ECONNREFUSED'') \<and>
   response (get_letters world_down (JStr ''ya29.token'')) =
     \<lparr>status = 500, json = ErrorJson ''Failed to fetch letters from Google Drive''\<rparr> \<and>
   logged (get_letters world_down (JStr ''ya29.token'')) =
     [(''Error fetching letters:'', ApiError ''ECONNREFUSED'')] \<and>
   DocsGet ''doc-7'' \<in> set (calls (get_letter world_down ''doc-7'' (JStr ''ya29.token''))) \<and>
   rejected world_down (JStr ''ya29.token'') (DocsGet ''doc-7'')
     = Some (ApiError ''ECONNREFUSED'') \<and>
   response (get_letter world_down ''doc-7'' (JStr ''ya29.token'')) =
     \<lparr>status = 500, json = ErrorJson ''Failed to fetch letter from Google Drive''\<rparr> \<and>
   logged (get_letter world_down ''doc-7'' (JStr ''ya29.token'')) =
     [(''Error fetching letter:'', ApiError ''ECONNREFUSED'')]"
proof -
  have post: "calls (post_letters world_insert_fails
      (JStr ''Dear Ann, thank you.'') (JStr ''June letter'') (JStr ''ya29.token'')) =
    [DriveFilesList folder_q ''files(id, name)'',
     DocsCreate (JStr ''June letter''),
     DocsBatchUpdate (Some ''doc-1'') [InsertText 1 (JStr ''Dear Ann, thank you.'')]]"
    by (simp add: post_letters_def post_letters_try_def ensure_folder_def
          world_insert_fails_simps letters_folder_def new_document_def)
  have lst: "calls (get_letters world_down (JStr ''ya29.token'')) =
    [DriveFilesList folder_q ''files(id, name)'']"
    by (simp add: get_letters_def get_letters_try_def world_down_simps)
  have one: "calls (get_letter world_down ''doc-7'' (JStr ''ya29.token'')) = [DocsGet ''doc-7'']"
    by (simp add: get_letter_def get_letter_try_def world_down_simps)
  have rej: "rejected world_insert_fails (JStr ''ya29.token'')
       (DocsBatchUpdate (Some ''doc-1'') [InsertText 1 (JStr ''Dear Ann, thank you.'')])
       = Some (ApiError ''quota exceeded'')"
    "rejected world_down (JStr ''ya29.token'') (DriveFilesList folder_q ''files(id, name)'')
       = Some (ApiError ''ECONNREFUSED'')"
    "rejected world_down (JStr ''ya29.token'') (DocsGet ''doc-7'')
       = Some (ApiError ''ECONNREFUSED'')"
    by (simp_all add: rejected_def world_insert_fails_simps world_down_simps)
  from post lst one rej
    downstream_failure_is_500
      [where W = world_insert_fails and accessToken = "JStr ''ya29.token''"
         and content' = "JStr ''Dear Ann, thank you.''" and title' = "JStr ''June letter''"
         and c = "DocsBatchUpdate (Some ''doc-1'') [InsertText 1 (JStr ''Dear Ann, thank you.'')]"
         and e = "ApiError ''quota exceeded''"]
    downstream_failure_is_500
      [where W = world_down and accessToken = "JStr ''ya29.token''"
         and c = "DriveFilesList folder_q ''files(id, name)''"
         and e = "ApiError ''ECONNREFUSED''"]
    downstream_failure_is_500
      [where W = world_down and accessToken = "JStr ''ya29.token''" and id' = "''doc-7''"
         and c = "DocsGet ''doc-7''" and e = "ApiError ''ECONNREFUSED''"]
  show ?thesis by simp
qed

end
